theory Spec2Isabelle
  imports Complex_Main
begin

section \<open>Python values and exceptions\<close>

text \<open>
  Values that travel as JSON (the gateway's reply read by the client with
  \<^verbatim>\<open>response.json()\<close>, the mapping returned by the engine's
  \<^verbatim>\<open>create_chat_completion\<close>). A Python dict with string keys is an
  association list read with \<open>map_of\<close>.
\<close>

datatype json =
    JNull
  | JBool bool
  | JInt int
  | JFloat real
  | JStr string
  | JList "json list"
  | JDict "(string \<times> json) list"

text \<open>The exceptions that the modelled code raises, catches or lets through.\<close>

datatype exn =
    HTTPException nat string
  | KeyError
  | IndexError
  | TypeError
  | AttributeError
  | ValidationError
  | RuntimeError string
  | ConnectionError
  | HTTPError nat
  | JSONDecodeError
  | ResponseValidationError

text \<open>
  \<^verbatim>\<open>obj[key]\<close> with a string key: a dict looks the key up and raises KeyError when
  it is missing; a list or a string rejects a string index with TypeError; None, booleans
  and numbers are not subscriptable (TypeError).
\<close>

fun subscript_key :: "json \<Rightarrow> string \<Rightarrow> exn + json" where
  "subscript_key (JDict kvs) k = (case map_of kvs k of None \<Rightarrow> Inl KeyError | Some v \<Rightarrow> Inr v)"
| "subscript_key _ k = Inl TypeError"

text \<open>
  \<^verbatim>\<open>obj[0]\<close>: a list gives its first element (IndexError when empty), a string its
  first character as a string (IndexError when empty), a dict with string keys has no key
  \<^verbatim>\<open>0\<close> (KeyError), anything else is not subscriptable (TypeError).
\<close>

fun subscript_0 :: "json \<Rightarrow> exn + json" where
  "subscript_0 (JList []) = Inl IndexError"
| "subscript_0 (JList (x # xs)) = Inr x"
| "subscript_0 (JStr []) = Inl IndexError"
| "subscript_0 (JStr (c # cs)) = Inr (JStr [c])"
| "subscript_0 (JDict kvs) = Inl KeyError"
| "subscript_0 _ = Inl TypeError"

text \<open>
  \<^verbatim>\<open>obj.get(key, default)\<close>: on a dict the value stored under the key (whatever it
  is, None included), the default only when the key is missing; any other value has no
  attribute \<^verbatim>\<open>get\<close>.
\<close>

fun py_get :: "json \<Rightarrow> string \<Rightarrow> json \<Rightarrow> exn + json" where
  "py_get (JDict kvs) k d = Inr (case map_of kvs k of None \<Rightarrow> d | Some v \<Rightarrow> v)"
| "py_get _ k d = Inl AttributeError"

section \<open>The command-line client (client\_chat.py)\<close>

text \<open>
  One entry of \<^verbatim>\<open>conversation_history\<close>: the dict
  \<^verbatim>\<open>{"role": ..., "content": ...}\<close>. User content is the typed text; assistant
  content is whatever the gateway's reply holds under \<^verbatim>\<open>content\<close>.
\<close>

record hist_entry =
  role :: string
  content :: json

record LLMChatClient =
  service_url :: string
  request_timeout :: int
  conversation_history :: "hist_entry list"

text \<open>The JSON body posted to the gateway.\<close>

record payload =
  p_messages :: "hist_entry list"
  p_temperature :: real
  p_max_tokens :: int

text \<open>
  What \<^verbatim>\<open>requests.post\<close> gives back: it raises (connection refused, timeout), or
  it returns a response with a status code and a body, which is JSON or not
  (\<open>None\<close>: \<^verbatim>\<open>response.json()\<close> raises).
\<close>

record http_response =
  status_code :: nat
  body :: "json option"

datatype post_outcome = PostRaises | PostReturns http_response

type_synonym transport = "string \<Rightarrow> payload \<Rightarrow> int \<Rightarrow> post_outcome"

definition LLMChatClient_init :: "string \<Rightarrow> int \<Rightarrow> string option \<Rightarrow> LLMChatClient" where
  "LLMChatClient_init url timeout default_system_prompt =
     \<lparr>service_url = url, request_timeout = timeout,
      conversation_history =
        (case default_system_prompt of
           None \<Rightarrow> []
         | Some p \<Rightarrow> (if p = [] then [] else [\<lparr>role = ''system'', content = JStr p\<rparr>]))\<rparr>"

definition add_user_message :: "string \<Rightarrow> LLMChatClient \<Rightarrow> LLMChatClient" where
  "add_user_message c self =
     self\<lparr>conversation_history := conversation_history self @ [\<lparr>role = ''user'', content = JStr c\<rparr>]\<rparr>"

definition add_assistant_message :: "json \<Rightarrow> LLMChatClient \<Rightarrow> LLMChatClient" where
  "add_assistant_message c self =
     self\<lparr>conversation_history := conversation_history self @ [\<lparr>role = ''assistant'', content = c\<rparr>]\<rparr>"

text \<open>\<^verbatim>\<open>_revert_last_user_message\<close>: pop the last entry when it is a user message.\<close>

definition revert_last_user_message :: "LLMChatClient \<Rightarrow> LLMChatClient" where
  "revert_last_user_message self =
     (if conversation_history self \<noteq> [] \<and> role (last (conversation_history self)) = ''user''
      then self\<lparr>conversation_history := butlast (conversation_history self)\<rparr>
      else self)"

text \<open>\<^verbatim>\<open>response.raise_for_status()\<close>: HTTPError for a 4xx or 5xx status.\<close>

definition raise_for_status :: "http_response \<Rightarrow> exn + unit" where
  "raise_for_status r =
     (if 400 \<le> status_code r \<and> status_code r < 600 then Inl (HTTPError (status_code r)) else Inr ())"

text \<open>
  The statements of the \<^verbatim>\<open>try\<close> block up to the evaluation of
  \<^verbatim>\<open>assistant_message_data["content"]\<close>; none of them touches the history.
\<close>

definition fetch_assistant_content :: "transport \<Rightarrow> LLMChatClient \<Rightarrow> payload \<Rightarrow> exn + json" where
  "fetch_assistant_content post self pl =
     (case post (service_url self) pl (request_timeout self) of
        PostRaises \<Rightarrow> Inl ConnectionError
      | PostReturns response \<Rightarrow>
          (case raise_for_status response of
             Inl e \<Rightarrow> Inl e
           | Inr _ \<Rightarrow>
               (case body response of
                  None \<Rightarrow> Inl JSONDecodeError
                | Some response_data \<Rightarrow>
                    (case subscript_key response_data ''choices'' of
                       Inl e \<Rightarrow> Inl e
                     | Inr cs \<Rightarrow>
                         (case subscript_0 cs of
                            Inl e \<Rightarrow> Inl e
                          | Inr c \<Rightarrow>
                              (case subscript_key c ''message'' of
                                 Inl e \<Rightarrow> Inl e
                               | Inr assistant_message_data \<Rightarrow>
                                   subscript_key assistant_message_data ''content''))))))"

text \<open>
  \<^verbatim>\<open>get_llm_response\<close>. The result is the returned value, the client afterwards and
  the list of requests that were posted during the call.
\<close>

definition get_llm_response ::
  "transport \<Rightarrow> real \<Rightarrow> int \<Rightarrow> LLMChatClient \<Rightarrow> json \<times> LLMChatClient \<times> payload list" where
  "get_llm_response post temperature max_tokens self =
     (if (if conversation_history self = [] then True
          else role (last (conversation_history self)) \<noteq> ''user'')
      then (JStr ''Error: Internal client error - no user message to respond to.'', self, [])
      else
        (let pl = \<lparr>p_messages = conversation_history self, p_temperature = temperature,
                   p_max_tokens = max_tokens\<rparr>
         in case fetch_assistant_content post self pl of
              Inr c \<Rightarrow> (c, add_assistant_message c self, [pl])
            | Inl e \<Rightarrow>
                (if e = KeyError \<or> e = IndexError \<or> e = TypeError
                 then (JStr ''Error: Received an invalid response from the AI.'',
                       revert_last_user_message self, [pl])
                 else (JStr ''Error: An unexpected problem occurred.'',
                       revert_last_user_message self, [pl]))))"

section \<open>The gateway: configuration, schemas, engine\<close>

text \<open>
  What the gateway reads from its surroundings: \<^verbatim>\<open>MODEL_PATH\<close> of core/config.py,
  the answer of \<^verbatim>\<open>os.path.exists(MODEL_PATH)\<close> and the clock reading
  \<^verbatim>\<open>int(time.time())\<close>.
\<close>

record env =
  MODEL_PATH :: string
  path_exists :: bool
  now :: int

text \<open>\<^verbatim>\<open>os.path.basename\<close>: what follows the last slash.\<close>

definition basename :: "string \<Rightarrow> string" where
  "basename p = rev (takeWhile (\<lambda>c. c \<noteq> CHR ''/'') (rev p))"

text \<open>Decimal rendering of an integer, as an f-string does.\<close>

definition digit :: "nat \<Rightarrow> char" where
  "digit d = ''0123456789'' ! d"

fun str_of_nat :: "nat \<Rightarrow> string" where
  "str_of_nat n =
     (if n < 10 then [digit n]
      else str_of_nat (n div 10) @ [digit (n mod 10)])"

definition str_of_int :: "int \<Rightarrow> string" where
  "str_of_int i = (if i < 0 then CHR ''-'' # str_of_nat (nat (- i)) else str_of_nat (nat i))"

text \<open>
  Modelled from the spec: core/schemas.py is not among the sources. The request and
  response contracts are those of the spec's data model and external interfaces (a message
  is a role and a text; the request carries the messages and the generation parameters
  temperature, max\_tokens, top\_p and optional stop sequences; the response carries id,
  created, model and one choice with index, message and finish\_reason), with the field
  names used by endpoints.py and tests/unit/test\_schema.py.
\<close>

record ChatMessageInput =
  msg_role :: string
  msg_content :: string

record ChatCompletionRequest =
  messages :: "ChatMessageInput list"
  temperature :: real
  max_tokens :: int
  top_p :: real
  stop :: "string list option"

record ChatMessageOutput =
  out_role :: string
  out_content :: string

record ChatCompletionChoice =
  index :: int
  message :: ChatMessageOutput
  finish_reason :: string

record ChatCompletionResponse =
  resp_id :: string
  created :: int
  model :: string
  choices :: "ChatCompletionChoice list"

text \<open>
  Modelled from the spec: the constructors of the response schemas (core/schemas.py is
  not among the sources). A text field takes a string and an integer field an integer;
  any other value is rejected with a ValidationError.
\<close>

fun as_str :: "json \<Rightarrow> exn + string" where
  "as_str (JStr s) = Inr s"
| "as_str _ = Inl ValidationError"

fun as_int :: "json \<Rightarrow> exn + int" where
  "as_int (JInt i) = Inr i"
| "as_int _ = Inl ValidationError"

definition new_ChatMessageOutput :: "json \<Rightarrow> json \<Rightarrow> exn + ChatMessageOutput" where
  "new_ChatMessageOutput r c =
     (case as_str r of
        Inl e \<Rightarrow> Inl e
      | Inr rs \<Rightarrow>
          (case as_str c of
             Inl e \<Rightarrow> Inl e
           | Inr cs \<Rightarrow> Inr \<lparr>out_role = rs, out_content = cs\<rparr>))"

definition new_ChatCompletionChoice :: "int \<Rightarrow> ChatMessageOutput \<Rightarrow> json \<Rightarrow> exn + ChatCompletionChoice" where
  "new_ChatCompletionChoice i m fr =
     (case as_str fr of
        Inl e \<Rightarrow> Inl e
      | Inr frs \<Rightarrow> Inr \<lparr>index = i, message = m, finish_reason = frs\<rparr>)"

definition new_ChatCompletionResponse ::
  "json \<Rightarrow> json \<Rightarrow> string \<Rightarrow> ChatCompletionChoice list \<Rightarrow> exn + ChatCompletionResponse" where
  "new_ChatCompletionResponse i c m chs =
     (case as_str i of
        Inl e \<Rightarrow> Inl e
      | Inr is \<Rightarrow>
          (case as_int c of
             Inl e \<Rightarrow> Inl e
           | Inr ci \<Rightarrow> Inr \<lparr>resp_id = is, created = ci, model = m, choices = chs\<rparr>))"

text \<open>
  The engine is opaque: \<^verbatim>\<open>llm.create_chat_completion(messages=..., ...)\<close> returns
  some value or raises. Nothing below depends on what it answers.
\<close>

record generate_args =
  g_messages :: "ChatMessageInput list"
  g_temperature :: real
  g_max_tokens :: int
  g_top_p :: real
  g_stop :: "string list option"

datatype engine_outcome = Returns json | Raises exn

type_synonym Llama = "generate_args \<Rightarrow> engine_outcome"

section \<open>The gate, the trace and the application state\<close>

datatype level = DEBUG | INFO | WARNING | ERROR

text \<open>
  What a run leaves behind: log records (level and the fixed part of the message;
  \<open>LogException\<close> is \<^verbatim>\<open>logger.exception\<close>, an error record with the traceback),
  acquisitions and releases of the lock, and calls of the engine.
\<close>

datatype event =
    Log level string
  | LogException string
  | Acquire
  | Release
  | Invoke generate_args

text \<open>The \<^verbatim>\<open>asyncio.Lock\<close> kept in \<^verbatim>\<open>app.state.llm_lock\<close>.\<close>

record lock =
  locked :: bool

text \<open>
  \<^verbatim>\<open>acquire\<close> takes a free lock; on a held lock the caller is suspended until the
  holder releases it (\<open>None\<close>). \<^verbatim>\<open>release\<close> frees a held lock and raises
  RuntimeError on a free one.
\<close>

definition acquire :: "lock \<Rightarrow> lock option" where
  "acquire l = (if locked l then None else Some (l\<lparr>locked := True\<rparr>))"

definition release :: "lock \<Rightarrow> exn + lock" where
  "release l =
     (if locked l then Inr (l\<lparr>locked := False\<rparr>) else Inl (RuntimeError ''Lock is not acquired.''))"

text \<open>
  An attribute of \<^verbatim>\<open>app.state\<close>: not set (\<^verbatim>\<open>hasattr\<close> is false), set to None,
  or set to an object.
\<close>

datatype 'a attr = Missing | IsNone | Obj 'a

record app_state =
  llm :: "Llama attr"
  llm_lock :: "lock attr"

text \<open>What a call of the completion handler comes to.\<close>

datatype handler_result =
    Response ChatCompletionResponse
  | NoResponse
  | Raise exn
  | Suspended

section \<open>Dependencies (core/dependencies.py)\<close>

definition get_llm_instance :: "app_state \<Rightarrow> (exn + Llama) \<times> event list" where
  "get_llm_instance st =
     (case llm st of
        Obj e \<Rightarrow> (Inr e, [])
      | _ \<Rightarrow>
          (Inl (HTTPException 503 ''LLM model is not loaded or unavailable. Check /health endpoint.''),
           [Log ERROR ''LLM instance not found in application state. It might not have loaded correctly.'']))"

definition get_llm_lock :: "app_state \<Rightarrow> (exn + lock) \<times> event list" where
  "get_llm_lock st =
     (case llm_lock st of
        Obj l \<Rightarrow> (Inr l, [])
      | _ \<Rightarrow>
          (Inl (HTTPException 503
                 ''LLM lock is unavailable. Service may be initializing or LLM failed to load.''),
           [Log ERROR ''LLM lock not found in application state. LLM likely not loaded.'']))"

section \<open>The completion handler (api/v1/endpoints.py)\<close>

text \<open>
  Lines 119 to 137: the first choice of the engine's mapping, with the defaults of
  \<^verbatim>\<open>get\<close> for a missing role, content or finish reason.
\<close>

definition first_choice_of :: "json \<Rightarrow> exn + ChatCompletionChoice" where
  "first_choice_of completion_result =
     (case subscript_key completion_result ''choices'' of
        Inl e \<Rightarrow> Inl e
      | Inr cs \<Rightarrow>
     (case subscript_0 cs of
        Inl e \<Rightarrow> Inl e
      | Inr first_choice \<Rightarrow>
     (case subscript_key first_choice ''message'' of
        Inl e \<Rightarrow> Inl e
      | Inr llm_message \<Rightarrow>
     (case py_get llm_message ''role'' (JStr ''assistant'') of
        Inl e \<Rightarrow> Inl e
      | Inr r \<Rightarrow>
     (case py_get llm_message ''content'' (JStr []) of
        Inl e \<Rightarrow> Inl e
      | Inr c \<Rightarrow>
     (case new_ChatMessageOutput r c of
        Inl e \<Rightarrow> Inl e
      | Inr response_message \<Rightarrow>
     (case py_get first_choice ''finish_reason'' (JStr ''stop'') of
        Inl e \<Rightarrow> Inl e
      | Inr fr \<Rightarrow> new_ChatCompletionChoice 0 response_message fr)))))))"

text \<open>Lines 139 to 153: the model name and the response object.\<close>

definition model_name_of :: "env \<Rightarrow> string" where
  "model_name_of ev =
     (if MODEL_PATH ev \<noteq> [] \<and> path_exists ev then basename (MODEL_PATH ev) else ''unknown_model'')"

definition response_of :: "env \<Rightarrow> json \<Rightarrow> ChatCompletionChoice \<Rightarrow> exn + ChatCompletionResponse" where
  "response_of ev completion_result choice =
     (case py_get completion_result ''id'' (JStr (''chatcmpl-'' @ str_of_int (now ev))) of
        Inl e \<Rightarrow> Inl e
      | Inr i \<Rightarrow>
     (case py_get completion_result ''created'' (JInt (now ev)) of
        Inl e \<Rightarrow> Inl e
      | Inr c \<Rightarrow> new_ChatCompletionResponse i c (model_name_of ev) [choice]))"

definition args_of :: "ChatCompletionRequest \<Rightarrow> generate_args" where
  "args_of request_data =
     \<lparr>g_messages = messages request_data, g_temperature = temperature request_data,
      g_max_tokens = max_tokens request_data, g_top_p = top_p request_data,
      g_stop = stop request_data\<rparr>"

text \<open>
  The body of the \<^verbatim>\<open>try\<close> after the engine call (lines 107 to 153), given what the
  call came to: the value returned or the exception raised, with the records logged on
  the way.
\<close>

definition try_block :: "env \<Rightarrow> engine_outcome \<Rightarrow> (exn + ChatCompletionResponse) \<times> event list" where
  "try_block ev outcome =
     (case outcome of
        Raises e \<Rightarrow> (Inl e, [])
      | Returns completion_result \<Rightarrow>
          (case completion_result of
             JDict kvs \<Rightarrow>
               (case first_choice_of completion_result of
                  Inl e \<Rightarrow> (Inl e, [Log INFO ''LLM processing completed''])
                | Inr choice \<Rightarrow>
                    (response_of ev completion_result choice,
                     [Log INFO ''LLM processing completed'',
                      Log INFO ''Successfully generated chat completion response.'']))
           | _ \<Rightarrow>
               (Inl (HTTPException 500 ''Invalid response structure from LLM.''),
                [Log INFO ''LLM processing completed'',
                 Log ERROR ''Unexpected LLM response structure''])))"

text \<open>
  The \<^verbatim>\<open>try\<close> with its two \<^verbatim>\<open>except\<close> clauses (lines 87 to 160): an
  HTTPException is raised again; any other exception is logged, and the function then
  runs off its end, which returns None.
\<close>

definition guarded :: "env \<Rightarrow> engine_outcome \<Rightarrow> handler_result \<times> event list" where
  "guarded ev outcome =
     (case try_block ev outcome of
        (Inr r, t) \<Rightarrow> (Response r, t)
      | (Inl (HTTPException code detail), t) \<Rightarrow> (Raise (HTTPException code detail), t)
      | (Inl e, t) \<Rightarrow>
          (NoResponse, t @ [LogException ''An unexpected error occurred during chat completion'']))"

text \<open>
  \<^verbatim>\<open>async with llm_lock:\<close> around a body: the lock is acquired on entry (the task is
  suspended while another holds it) and released on exit, whether the body returned or
  raised.
\<close>

definition async_with :: "lock \<Rightarrow> handler_result \<times> event list \<Rightarrow> handler_result \<times> lock \<times> event list" where
  "async_with l blk =
     (case acquire l of
        None \<Rightarrow> (Suspended, l, [])
      | Some held \<Rightarrow>
          (case release held of
             Inl e \<Rightarrow> (Raise e, held, Acquire # snd blk)
           | Inr l' \<Rightarrow> (fst blk, l', Acquire # snd blk @ [Release])))"

definition create_chat_completion ::
  "env \<Rightarrow> ChatCompletionRequest \<Rightarrow> Llama \<Rightarrow> lock \<Rightarrow> handler_result \<times> lock \<times> event list" where
  "create_chat_completion ev request_data llm_obj llm_lock_obj =
     (if messages request_data = []
      then (Raise (HTTPException 400 ''Messages list cannot be empty.''), llm_lock_obj,
            [Log INFO ''Received chat completion request'',
             Log WARNING ''Received empty messages list for chat completion.''])
      else
        (case async_with llm_lock_obj
                (case guarded ev (llm_obj (args_of request_data)) of
                   (r, t) \<Rightarrow>
                     (r, [Log INFO ''Acquired lock.'',
                          Log INFO ''Offloading LLM inference to thread pool executor.'',
                          Invoke (args_of request_data)] @ t)) of
           (r, l', t) \<Rightarrow>
             (r, l', [Log INFO ''Received chat completion request'',
                      Log DEBUG ''Chat completion request details''] @ t)))"

text \<open>
  The route \<^verbatim>\<open>POST /chat/completions\<close>: the handler's parameters
  \<^verbatim>\<open>llm: LLMDependency\<close> and \<^verbatim>\<open>llm_lock: LLMLockDependency\<close> are computed by
  \<^verbatim>\<open>get_llm_instance\<close> and \<^verbatim>\<open>get_llm_lock\<close> before the handler is called, in
  the order of the signature; an exception of a dependency is the answer of the route. The
  lock object lives in the application state, so its new state is written back there.

  The route is declared with \<^verbatim>\<open>response_model=ChatCompletionResponse\<close> (line 60):
  what the handler returns is validated against that model before it is sent. None is not
  a ChatCompletionResponse, so a handler that returns None makes the route fail with a
  response validation error after the handler has finished.
\<close>

definition chat_completions_route ::
  "env \<Rightarrow> app_state \<Rightarrow> ChatCompletionRequest \<Rightarrow> handler_result \<times> app_state \<times> event list" where
  "chat_completions_route ev st request_data =
     (case get_llm_instance st of
        (Inl e, t1) \<Rightarrow> (Raise e, st, t1)
      | (Inr llm_obj, t1) \<Rightarrow>
          (case get_llm_lock st of
             (Inl e, t2) \<Rightarrow> (Raise e, st, t1 @ t2)
           | (Inr llm_lock_obj, t2) \<Rightarrow>
               (case create_chat_completion ev request_data llm_obj llm_lock_obj of
                  (r, l', t3) \<Rightarrow>
                    ((case r of NoResponse \<Rightarrow> Raise ResponseValidationError | _ \<Rightarrow> r),
                     st\<lparr>llm_lock := Obj l'\<rparr>, t1 @ t2 @ t3))))"

text \<open>
  The status the caller receives for an answer of the route: 200 with a response, the
  status of an HTTPException, and 500 (internal server error) for any other exception
  that leaves the route. A suspended request has not been answered; a bare None is a
  return value of the handler, never an answer of the route.
\<close>

fun http_status :: "handler_result \<Rightarrow> nat option" where
  "http_status (Response r) = Some 200"
| "http_status (Raise (HTTPException code detail)) = Some code"
| "http_status (Raise e) = Some 500"
| "http_status NoResponse = None"
| "http_status Suspended = None"

section \<open>The health reporter (api/v1/endpoints.py)\<close>

definition health_check_status :: "env \<Rightarrow> app_state \<Rightarrow> (string \<times> json) list \<times> event list" where
  "health_check_status ev st =
     (let llm_instance_available = (case llm st of Obj e \<Rightarrow> True | _ \<Rightarrow> False);
          model_name_display =
            (if llm_instance_available \<and> MODEL_PATH ev \<noteq> [] \<and> path_exists ev
             then basename (MODEL_PATH ev)
             else if MODEL_PATH ev \<noteq> [] \<and> \<not> path_exists ev
             then basename (MODEL_PATH ev) @ '' (file not found)''
             else ''N/A'')
      in if llm_instance_available
         then ([(''status'', JStr ''ok''), (''model_loaded'', JBool True),
                (''model_name'', JStr model_name_display)],
               [Log DEBUG ''Health check endpoint called.'',
                Log INFO ''Health check: OK - Model loaded.''])
         else ([(''status'', JStr ''warning''), (''model_loaded'', JBool False),
                (''message'', JStr ''LLM not loaded or failed to load. Check server logs.''),
                (''configured_model_path'', JStr (MODEL_PATH ev))],
               [Log DEBUG ''Health check endpoint called.'',
                Log WARNING ''Health check: WARNING - Model not loaded.'']))"

section \<open>The lifecycle manager (main.py)\<close>

text \<open>What the constructor \<^verbatim>\<open>Llama(model_path=..., ...)\<close> comes to.\<close>

datatype load_outcome = Loaded Llama | LoadRaises exn

text \<open>
  The part of \<^verbatim>\<open>lifespan\<close> before the \<^verbatim>\<open>yield\<close>. An engine object is
  truthy, so \<^verbatim>\<open>if llm_instance:\<close> tests whether one was loaded.
\<close>

definition lifespan_startup :: "env \<Rightarrow> load_outcome \<Rightarrow> app_state \<Rightarrow> app_state \<times> event list" where
  "lifespan_startup ev load st =
     (case (if \<not> path_exists ev
            then (None, [Log ERROR ''Model file not found. LLM will not be available.''])
            else (case load of
                    Loaded e \<Rightarrow>
                      (Some e, [Log INFO ''Model file found. Initializing Llama model...'',
                                Log INFO ''LLM loaded successfully'', Log INFO ''Model Name''])
                  | LoadRaises x \<Rightarrow>
                      (None, [Log INFO ''Model file found. Initializing Llama model...'',
                              LogException ''Failed to load LLM. LLM will not be available.'']))) of
        (Some e, t) \<Rightarrow>
          (st\<lparr>llm := Obj e, llm_lock := Obj \<lparr>locked = False\<rparr>\<rparr>,
           [Log INFO ''Application Startup'', Log INFO ''Attempting to load LLM.'',
            Log INFO ''Configuration:'', Log INFO ''  MODEL_PATH'', Log INFO ''  N_GPU_LAYERS'',
            Log INFO ''  N_CTX'', Log INFO ''  N_THREADS'', Log INFO ''  VERBOSE_LLAMA'']
           @ t @ [Log INFO ''LLM Lock initialized.'',
                  Log INFO ''Application startup complete. Model loading is done.''])
      | (None, t) \<Rightarrow>
          (st\<lparr>llm := IsNone, llm_lock := IsNone\<rparr>,
           [Log INFO ''Application Startup'', Log INFO ''Attempting to load LLM.'',
            Log INFO ''Configuration:'', Log INFO ''  MODEL_PATH'', Log INFO ''  N_GPU_LAYERS'',
            Log INFO ''  N_CTX'', Log INFO ''  N_THREADS'', Log INFO ''  VERBOSE_LLAMA'']
           @ t @ [Log INFO ''LLM Lock not initialized as LLM failed to load or was not found.'',
                  Log INFO ''Application startup complete. Model loading is done.'']))"

text \<open>The part of \<^verbatim>\<open>lifespan\<close> after the \<^verbatim>\<open>yield\<close>.\<close>

definition lifespan_shutdown :: "app_state \<Rightarrow> app_state \<times> event list" where
  "lifespan_shutdown st =
     (case llm st of
        Obj e \<Rightarrow>
          (st\<lparr>llm := Missing\<rparr>,
           [Log INFO ''Application Shutdown Sequence'', Log INFO ''Cleaning up LLM instance...'',
            Log INFO ''LLM instance reference removed from app.state.'',
            Log INFO ''Shutdown complete.''])
      | _ \<Rightarrow>
          (st,
           [Log INFO ''Application Shutdown Sequence'', Log INFO ''Cleaning up LLM instance...'',
            Log INFO ''No LLM instance was loaded or it was already cleaned up.'',
            Log INFO ''Shutdown complete.'']))"

section \<open>Requests in flight\<close>

text \<open>
  Several requests in flight. asyncio runs the handlers of one event loop one at a time
  and switches between them only where a handler awaits: at the entry of
  \<^verbatim>\<open>async with llm_lock\<close> and at \<^verbatim>\<open>await loop.run_in_executor(...)\<close>. A request
  is therefore seen in one of four places: received, validated and waiting for the lock,
  inside the engine call with the lock held, or finished.
\<close>

datatype task =
    Received ChatCompletionRequest
  | Validated ChatCompletionRequest
  | Invoking ChatCompletionRequest
  | Finished handler_result

fun is_invoking :: "task \<Rightarrow> bool" where
  "is_invoking (Invoking r) = True"
| "is_invoking _ = False"

text \<open>
  What the scheduler may do next: let request \<open>i\<close> run its validation, let it take the
  lock, or deliver the outcome of its engine call, after which the handler runs to its
  end and leaves the \<^verbatim>\<open>async with\<close> block.
\<close>

datatype action = Validate nat | Enter nat | Leave nat engine_outcome

fun step :: "env \<Rightarrow> action \<Rightarrow> lock \<times> task list \<Rightarrow> (lock \<times> task list) option" where
  "step ev (Validate i) (g, ts) =
     (if i < length ts
      then (case ts ! i of
              Received r \<Rightarrow>
                Some (g, ts[i := (if messages r = []
                                  then Finished (Raise (HTTPException 400 ''Messages list cannot be empty.''))
                                  else Validated r)])
            | _ \<Rightarrow> None)
      else None)"
| "step ev (Enter i) (g, ts) =
     (if i < length ts
      then (case ts ! i of
              Validated r \<Rightarrow>
                (case acquire g of
                   None \<Rightarrow> None
                 | Some g' \<Rightarrow> Some (g', ts[i := Invoking r]))
            | _ \<Rightarrow> None)
      else None)"
| "step ev (Leave i outcome) (g, ts) =
     (if i < length ts
      then (case ts ! i of
              Invoking r \<Rightarrow>
                (case release g of
                   Inl e \<Rightarrow> Some (g, ts[i := Finished (Raise e)])
                 | Inr g' \<Rightarrow> Some (g', ts[i := Finished (fst (guarded ev outcome))]))
            | _ \<Rightarrow> None)
      else None)"

fun run :: "env \<Rightarrow> action list \<Rightarrow> lock \<times> task list \<Rightarrow> (lock \<times> task list) option" where
  "run ev [] s = Some s"
| "run ev (a # as) s = (case step ev a s of None \<Rightarrow> None | Some s' \<Rightarrow> run ev as s')"

definition submitted :: "ChatCompletionRequest list \<Rightarrow> lock \<times> task list" where
  "submitted rs = (\<lparr>locked = False\<rparr>, map Received rs)"

definition invoking_count :: "task list \<Rightarrow> nat" where
  "invoking_count ts = length (filter is_invoking ts)"

definition gate_inv :: "lock \<times> task list \<Rightarrow> bool" where
  "gate_inv s = (invoking_count (snd s) = (if locked (fst s) then 1 else 0))"

section \<open>Vocabulary of the claims\<close>

text \<open>
  The engine handle is present when \<^verbatim>\<open>app.state.llm\<close> holds an object (the test
  \<^verbatim>\<open>llm_instance_available\<close> of the health check); the gate exists when
  \<^verbatim>\<open>app.state.llm_lock\<close> holds a lock.
\<close>

definition engine_present :: "app_state \<Rightarrow> bool" where
  "engine_present st = (case llm st of Obj e \<Rightarrow> True | _ \<Rightarrow> False)"

definition gate_present :: "app_state \<Rightarrow> bool" where
  "gate_present st = (case llm_lock st of Obj l \<Rightarrow> True | _ \<Rightarrow> False)"

text \<open>
  The shape of the expected structured result of the engine: a mapping whose
  \<^verbatim>\<open>choices\<close> is a list that starts with a mapping, whose \<^verbatim>\<open>message\<close> is
  a mapping.
\<close>

definition expected_shape :: "json \<Rightarrow> bool" where
  "expected_shape v =
     (case v of
        JDict res \<Rightarrow>
          (case map_of res ''choices'' of
             Some (JList (JDict ch # others)) \<Rightarrow>
               (case map_of ch ''message'' of
                  Some (JDict msg) \<Rightarrow> True
                | _ \<Rightarrow> False)
           | _ \<Rightarrow> False)
      | _ \<Rightarrow> False)"

text \<open>
  What a well-formed reply of the gateway holds under
  \<^verbatim>\<open>choices[0].message.content\<close>: the reply is a mapping, its \<^verbatim>\<open>choices\<close> a
  list that starts with a mapping, whose \<^verbatim>\<open>message\<close> is a mapping with a
  \<^verbatim>\<open>content\<close>. Any other reply is malformed (\<open>None\<close>).
\<close>

definition reply_content :: "json \<Rightarrow> json option" where
  "reply_content j =
     (case j of
        JDict kvs \<Rightarrow>
          (case map_of kvs ''choices'' of
             Some (JList (JDict c # others)) \<Rightarrow>
               (case map_of c ''message'' of
                  Some (JDict m) \<Rightarrow> map_of m ''content''
                | _ \<Rightarrow> None)
           | _ \<Rightarrow> None)
      | _ \<Rightarrow> None)"

section \<open>Inputs of the scenarios\<close>

text \<open>
  The default model path of core/config.py with the file in place, the request and the
  canned engine answer of the round-trip scenario, an engine that raises, and gateways as
  the client sees them.
\<close>

definition test_env :: env where
  "test_env = \<lparr>MODEL_PATH = ''models/mistral-7b-instruct-v0.1.Q4_K_M.gguf'', path_exists = True,
               now = 1700000000\<rparr>"

definition hello_request :: ChatCompletionRequest where
  "hello_request =
     \<lparr>messages = [\<lparr>msg_role = ''user'', msg_content = ''hello''\<rparr>], temperature = 7 / 10,
      max_tokens = 10, top_p = 1, stop = None\<rparr>"

definition empty_request :: ChatCompletionRequest where
  "empty_request = \<lparr>messages = [], temperature = 7 / 10, max_tokens = 512, top_p = 1, stop = None\<rparr>"

definition canned_result :: json where
  "canned_result =
     JDict [(''choices'',
             JList [JDict [(''message'',
                            JDict [(''role'', JStr ''assistant''), (''content'', JStr ''hi there'')])]])]"

definition canned_engine :: Llama where
  "canned_engine = (\<lambda>a. Returns canned_result)"

definition failing_engine :: Llama where
  "failing_engine = (\<lambda>a. Raises (RuntimeError ''engine failure''))"

definition unavailable_gateway :: transport where
  "unavailable_gateway = (\<lambda>url pl timeout. PostReturns \<lparr>status_code = 503, body = None\<rparr>)"

definition answering_gateway :: transport where
  "answering_gateway = (\<lambda>url pl timeout. PostReturns \<lparr>status_code = 200, body = Some canned_result\<rparr>)"

definition asking_client :: LLMChatClient where
  "asking_client =
     add_user_message ''hello'' (LLMChatClient_init ''http://localhost:8000/v1/chat/completions'' 120 None)"



text \<open>Replies of the gateway that lack a part of \<^verbatim>\<open>choices[0].message.content\<close>.\<close>

definition no_choices_reply :: json where
  "no_choices_reply = JDict [(''error'', JStr ''unexpected format''), (''data'', JNull)]"

definition empty_choices_reply :: json where
  "empty_choices_reply = JDict [(''choices'', JList [])]"

definition malformed_gateway :: transport where
  "malformed_gateway = (\<lambda>url pl timeout. PostReturns \<lparr>status_code = 200, body = Some no_choices_reply\<rparr>)"

definition refusing_gateway :: transport where
  "refusing_gateway = (\<lambda>url pl timeout. PostRaises)"

section \<open>Strict serialisation of engine calls\<close>

lemma count_update:
  "i < length ts \<Longrightarrow>
   length (filter P (ts[i := x])) + (if P (ts ! i) then 1 else 0)
     = length (filter P ts) + (if P x then 1 else 0)"
proof (induction ts arbitrary: i)
  case Nil
  then show ?case by simp
next
  case (Cons t ts)
  show ?case
  proof (cases i)
    case 0
    then show ?thesis by simp
  next
    case (Suc j)
    with Cons.prems have "j < length ts" by simp
    from Cons.IH[OF this] Suc show ?thesis by simp
  qed
qed

lemma invoking_count_leave:
  "i < length ts \<Longrightarrow> is_invoking (ts ! i) \<Longrightarrow> \<not> is_invoking x \<Longrightarrow>
   Suc (invoking_count (ts[i := x])) = invoking_count ts"
  using count_update[of i ts is_invoking x] by (simp add: invoking_count_def)

lemma invoking_count_enter:
  "i < length ts \<Longrightarrow> \<not> is_invoking (ts ! i) \<Longrightarrow> is_invoking x \<Longrightarrow>
   invoking_count (ts[i := x]) = Suc (invoking_count ts)"
  using count_update[of i ts is_invoking x] by (simp add: invoking_count_def)

lemma invoking_count_same:
  "i < length ts \<Longrightarrow> \<not> is_invoking (ts ! i) \<Longrightarrow> \<not> is_invoking x \<Longrightarrow>
   invoking_count (ts[i := x]) = invoking_count ts"
  using count_update[of i ts is_invoking x] by (simp add: invoking_count_def)

lemma step_gate_inv:
  assumes "gate_inv s" and "step ev a s = Some s'"
  shows "gate_inv s'"
proof -
  obtain g ts where s: "s = (g, ts)" by (cases s)
  show ?thesis
  proof (cases a)
    case (Validate i)
    with assms s show ?thesis
      by (auto simp: gate_inv_def invoking_count_same split: if_splits task.splits)
  next
    case (Enter i)
    with assms s show ?thesis
      by (auto simp: gate_inv_def acquire_def invoking_count_enter split: if_splits task.splits)
  next
    case (Leave i outcome)
    with assms s have i: "i < length ts" and inv: "is_invoking (ts ! i)"
      by (auto split: if_splits task.splits)
    from Leave assms s i inv show ?thesis
      using invoking_count_leave[OF i inv, of "Finished (fst (guarded ev outcome))"]
      by (auto simp: gate_inv_def release_def split: if_splits task.splits)
  qed
qed

lemma run_gate_inv:
  "gate_inv s \<Longrightarrow> run ev acts s = Some s' \<Longrightarrow> gate_inv s'"
proof (induction acts arbitrary: s)
  case Nil
  then show ?case by simp
next
  case (Cons a acts)
  then show ?case
    by (auto split: option.splits dest: step_gate_inv)
qed

lemma submitted_gate_inv: "gate_inv (submitted rs)"
  by (simp add: gate_inv_def invoking_count_def submitted_def filter_map comp_def)

text \<open>
  Claim C1. Whatever requests were submitted and in whatever order the scheduler lets them
  validate, take the lock and finish, at most one request is inside the engine call at
  any moment, and the lock is held exactly while one is.
\<close>

theorem at_most_one_invoking:
  assumes "run ev acts (submitted rs) = Some (g, ts)"
  shows "invoking_count ts \<le> 1 \<and> (locked g \<longleftrightarrow> invoking_count ts = 1)"
  using run_gate_inv[OF submitted_gate_inv assms] by (simp add: gate_inv_def split: if_splits)

theorem at_most_one_invoking_witness:
  "run test_env [Validate 0, Validate 1, Enter 0] (submitted [hello_request, hello_request])
     = Some (\<lparr>locked = True\<rparr>, [Invoking hello_request, Validated hello_request])
   \<and> invoking_count [Invoking hello_request, Validated hello_request] \<le> 1
   \<and> (locked \<lparr>locked = True\<rparr> \<longleftrightarrow> invoking_count [Invoking hello_request, Validated hello_request] = 1)"
proof -
  have r: "run test_env [Validate 0, Validate 1, Enter 0] (submitted [hello_request, hello_request])
     = Some (\<lparr>locked = True\<rparr>, [Invoking hello_request, Validated hello_request])"
    by (simp add: submitted_def hello_request_def acquire_def)
  from r at_most_one_invoking[OF r] show ?thesis by simp
qed

lemma second_request_waits:
  "run test_env [Validate 0, Validate 1, Enter 0, Enter 1] (submitted [hello_request, hello_request]) = None"
  by (simp add: submitted_def hello_request_def acquire_def)

lemma second_request_enters_after_first_left:
  "run test_env [Validate 0, Validate 1, Enter 0, Leave 0 (Raises (RuntimeError ''engine failure'')), Enter 1]
       (submitted [hello_request, hello_request])
     = Some (\<lparr>locked = True\<rparr>, [Finished NoResponse, Invoking hello_request])"
  by (simp add: submitted_def hello_request_def acquire_def release_def guarded_def try_block_def)

lemma handler_is_a_run:
  assumes "messages r \<noteq> []" and "\<not> locked l"
  shows "run ev [Validate 0, Enter 0, Leave 0 (llm_obj (args_of r))] (l, [Received r])
           = Some (fst (snd (create_chat_completion ev r llm_obj l)),
                   [Finished (fst (create_chat_completion ev r llm_obj l))])"
  using assms
  by (simp add: create_chat_completion_def async_with_def acquire_def release_def
      split: prod.splits)

section \<open>Client: rollback on error, append on success\<close>

lemma fetch_post_raises:
  "post (service_url self) pl (request_timeout self) = PostRaises \<Longrightarrow>
   fetch_assistant_content post self pl = Inl ConnectionError"
  by (simp add: fetch_assistant_content_def)

lemma fetch_http_error:
  "post (service_url self) pl (request_timeout self) = PostReturns r \<Longrightarrow>
   400 \<le> status_code r \<Longrightarrow> status_code r < 600 \<Longrightarrow>
   fetch_assistant_content post self pl = Inl (HTTPError (status_code r))"
  by (simp add: fetch_assistant_content_def raise_for_status_def)

lemma fetch_not_json:
  "post (service_url self) pl (request_timeout self) = PostReturns r \<Longrightarrow>
   body r = None \<Longrightarrow> \<exists>e. fetch_assistant_content post self pl = Inl e"
  by (simp add: fetch_assistant_content_def split: sum.splits)

lemma fetch_missing_choices:
  "post (service_url self) pl (request_timeout self) = PostReturns r \<Longrightarrow>
   body r = Some (JDict kvs) \<Longrightarrow> map_of kvs ''choices'' = None \<Longrightarrow>
   \<exists>e. fetch_assistant_content post self pl = Inl e"
  by (simp add: fetch_assistant_content_def split: sum.splits)

lemma extract_well_formed:
  assumes "reply_content j = Some c"
  shows "(case subscript_key j ''choices'' of
            Inl e \<Rightarrow> Inl e
          | Inr cs \<Rightarrow>
              (case subscript_0 cs of
                 Inl e \<Rightarrow> Inl e
               | Inr ch \<Rightarrow>
                   (case subscript_key ch ''message'' of
                      Inl e \<Rightarrow> Inl e
                    | Inr m \<Rightarrow> subscript_key m ''content''))) = Inr c"
  using assms
  by (auto simp: reply_content_def split: json.splits option.splits list.splits)

lemma extract_malformed:
  assumes "reply_content j = None"
  shows "\<exists>e. (e = KeyError \<or> e = IndexError \<or> e = TypeError) \<and>
         (case subscript_key j ''choices'' of
            Inl e \<Rightarrow> Inl e
          | Inr cs \<Rightarrow>
              (case subscript_0 cs of
                 Inl e \<Rightarrow> Inl e
               | Inr ch \<Rightarrow>
                   (case subscript_key ch ''message'' of
                      Inl e \<Rightarrow> Inl e
                    | Inr m \<Rightarrow> subscript_key m ''content''))) = Inl e"
proof (cases j)
  case (JDict kvs)
  show ?thesis
  proof (cases "map_of kvs ''choices''")
    case None
    with JDict show ?thesis by simp
  next
    case (Some cs)
    note cs = this
    show ?thesis
    proof (cases "subscript_0 cs")
      case (Inl e)
      then have "e = KeyError \<or> e = IndexError \<or> e = TypeError"
        by (cases cs rule: subscript_0.cases) auto
      with JDict cs Inl show ?thesis by simp
    next
      case (Inr ch)
      note ch = this
      show ?thesis
      proof (cases ch)
        case (JDict c)
        show ?thesis
        proof (cases "map_of c ''message''")
          case None
          with \<open>j = JDict kvs\<close> cs ch JDict show ?thesis by simp
        next
          case (Some m)
          from ch JDict have l: "\<exists>others. cs = JList (JDict c # others)"
            by (cases cs rule: subscript_0.cases) auto
          show ?thesis
          proof (cases m)
            case (JDict mk)
            with assms \<open>j = JDict kvs\<close> cs l Some \<open>ch = JDict c\<close> ch show ?thesis
              by (auto simp: reply_content_def)
          qed (use \<open>j = JDict kvs\<close> cs ch \<open>ch = JDict c\<close> Some in simp_all)
        qed
      qed (use \<open>j = JDict kvs\<close> cs ch in simp_all)
    qed
  qed
qed simp_all


lemma fetch_well_formed:
  assumes "post (service_url self) pl (request_timeout self) = PostReturns r"
    and "\<not> (400 \<le> status_code r \<and> status_code r < 600)"
    and "body r = Some j"
    and "reply_content j = Some c"
  shows "fetch_assistant_content post self pl = Inr c"
  using extract_well_formed[OF assms(4)] assms(1-3)
  by (simp add: fetch_assistant_content_def raise_for_status_def)

lemma fetch_malformed:
  assumes "post (service_url self) pl (request_timeout self) = PostReturns r"
    and "\<not> (400 \<le> status_code r \<and> status_code r < 600)"
    and "body r = Some j"
    and "reply_content j = None"
  shows "\<exists>e. (e = KeyError \<or> e = IndexError \<or> e = TypeError)
              \<and> fetch_assistant_content post self pl = Inl e"
  using extract_malformed[OF assms(4)] assms(1-3)
  by (simp add: fetch_assistant_content_def raise_for_status_def)

text \<open>
  Claim C9. A call of \<open>get_llm_response\<close> on a history that ends with a user message
  posts one request, and what it leaves behind is decided by the gateway's reply alone.
  When the post raises, when the status is a 4xx or 5xx, when the body is not JSON, or
  when the body lacks \<open>choices[0].message.content\<close>, an error text is returned and the
  client afterwards is the client before with its last user message removed. Otherwise
  the content is returned and the client afterwards is the client before with exactly one
  assistant message, holding that content, appended.
\<close>

theorem get_llm_response_rollback_or_append:
  assumes "conversation_history self \<noteq> []"
    and "role (last (conversation_history self)) = ''user''"
  shows "get_llm_response post t m self =
     (case post (service_url self)
             \<lparr>p_messages = conversation_history self, p_temperature = t, p_max_tokens = m\<rparr>
             (request_timeout self) of
        PostRaises \<Rightarrow>
          (JStr ''Error: An unexpected problem occurred.'',
           self\<lparr>conversation_history := butlast (conversation_history self)\<rparr>,
           [\<lparr>p_messages = conversation_history self, p_temperature = t, p_max_tokens = m\<rparr>])
      | PostReturns r \<Rightarrow>
          (if 400 \<le> status_code r \<and> status_code r < 600
           then (JStr ''Error: An unexpected problem occurred.'',
                 self\<lparr>conversation_history := butlast (conversation_history self)\<rparr>,
                 [\<lparr>p_messages = conversation_history self, p_temperature = t, p_max_tokens = m\<rparr>])
           else
             (case body r of
                None \<Rightarrow>
                  (JStr ''Error: An unexpected problem occurred.'',
                   self\<lparr>conversation_history := butlast (conversation_history self)\<rparr>,
                   [\<lparr>p_messages = conversation_history self, p_temperature = t, p_max_tokens = m\<rparr>])
              | Some j \<Rightarrow>
                  (case reply_content j of
                     None \<Rightarrow>
                       (JStr ''Error: Received an invalid response from the AI.'',
                        self\<lparr>conversation_history := butlast (conversation_history self)\<rparr>,
                        [\<lparr>p_messages = conversation_history self, p_temperature = t,
                           p_max_tokens = m\<rparr>])
                   | Some c \<Rightarrow>
                       (c,
                        self\<lparr>conversation_history :=
                               conversation_history self @ [\<lparr>role = ''assistant'', content = c\<rparr>]\<rparr>,
                        [\<lparr>p_messages = conversation_history self, p_temperature = t,
                           p_max_tokens = m\<rparr>])))))"
proof (cases "post (service_url self)
                \<lparr>p_messages = conversation_history self, p_temperature = t, p_max_tokens = m\<rparr>
                (request_timeout self)")
  case PostRaises
  with assms show ?thesis
    by (simp add: get_llm_response_def fetch_assistant_content_def revert_last_user_message_def
        Let_def)
next
  case (PostReturns r)
  note pr = this
  show ?thesis
  proof (cases "400 \<le> status_code r \<and> status_code r < 600")
    case True
    with pr assms show ?thesis
      by (simp add: get_llm_response_def fetch_assistant_content_def raise_for_status_def
          revert_last_user_message_def Let_def)
  next
    case False
    note ok = this
    then have okf: "(400 \<le> status_code r \<and> status_code r < 600) = False" by simp
    show ?thesis
    proof (cases "body r")
      case None
      with pr assms show ?thesis
        by (simp add: okf get_llm_response_def fetch_assistant_content_def raise_for_status_def
            revert_last_user_message_def Let_def)
    next
      case (Some j)
      note bj = this
      show ?thesis
      proof (cases "reply_content j")
        case None
        from fetch_malformed[of post self
               "\<lparr>p_messages = conversation_history self, p_temperature = t, p_max_tokens = m\<rparr>"
               r j] pr ok bj None
        obtain e where "e = KeyError \<or> e = IndexError \<or> e = TypeError"
          and "fetch_assistant_content post self
                 \<lparr>p_messages = conversation_history self, p_temperature = t, p_max_tokens = m\<rparr>
               = Inl e"
          by blast
        with pr bj None assms show ?thesis
          by (simp add: okf get_llm_response_def revert_last_user_message_def Let_def)
      next
        case (Some c)
        from fetch_well_formed[of post self
               "\<lparr>p_messages = conversation_history self, p_temperature = t, p_max_tokens = m\<rparr>"
               r j c] pr ok bj Some
        have "fetch_assistant_content post self
                 \<lparr>p_messages = conversation_history self, p_temperature = t, p_max_tokens = m\<rparr>
               = Inr c"
          by simp
        with pr bj Some assms show ?thesis
          by (simp add: okf get_llm_response_def add_assistant_message_def Let_def)
      qed
    qed
  qed
qed

theorem get_llm_response_rollback_or_append_witness:
  "conversation_history asking_client = [\<lparr>role = ''user'', content = JStr ''hello''\<rparr>]
   \<and> role (last (conversation_history asking_client)) = ''user''
   \<and> get_llm_response unavailable_gateway (7 / 10) 512 asking_client
       = (JStr ''Error: An unexpected problem occurred.'',
          asking_client\<lparr>conversation_history := []\<rparr>,
          [\<lparr>p_messages = [\<lparr>role = ''user'', content = JStr ''hello''\<rparr>], p_temperature = 7 / 10,
             p_max_tokens = 512\<rparr>])
   \<and> get_llm_response refusing_gateway (7 / 10) 512 asking_client
       = (JStr ''Error: An unexpected problem occurred.'',
          asking_client\<lparr>conversation_history := []\<rparr>,
          [\<lparr>p_messages = [\<lparr>role = ''user'', content = JStr ''hello''\<rparr>], p_temperature = 7 / 10,
             p_max_tokens = 512\<rparr>])
   \<and> get_llm_response malformed_gateway (7 / 10) 512 asking_client
       = (JStr ''Error: Received an invalid response from the AI.'',
          asking_client\<lparr>conversation_history := []\<rparr>,
          [\<lparr>p_messages = [\<lparr>role = ''user'', content = JStr ''hello''\<rparr>], p_temperature = 7 / 10,
             p_max_tokens = 512\<rparr>])
   \<and> get_llm_response answering_gateway (7 / 10) 512 asking_client
       = (JStr ''hi there'',
          asking_client\<lparr>conversation_history :=
            [\<lparr>role = ''user'', content = JStr ''hello''\<rparr>,
             \<lparr>role = ''assistant'', content = JStr ''hi there''\<rparr>]\<rparr>,
          [\<lparr>p_messages = [\<lparr>role = ''user'', content = JStr ''hello''\<rparr>], p_temperature = 7 / 10,
             p_max_tokens = 512\<rparr>])"
proof -
  have c: "conversation_history asking_client = [\<lparr>role = ''user'', content = JStr ''hello''\<rparr>]"
    by (simp add: asking_client_def add_user_message_def LLMChatClient_init_def)
  from c have h1: "conversation_history asking_client \<noteq> []" by simp
  from c have h2: "role (last (conversation_history asking_client)) = ''user''" by simp
  have w: "reply_content canned_result = Some (JStr ''hi there'')"
    by (simp add: reply_content_def canned_result_def)
  have n: "reply_content no_choices_reply = None"
    by (simp add: reply_content_def no_choices_reply_def)
  from get_llm_response_rollback_or_append[OF h1 h2, of unavailable_gateway "7 / 10" 512] c
  have e1: "get_llm_response unavailable_gateway (7 / 10) 512 asking_client
       = (JStr ''Error: An unexpected problem occurred.'',
          asking_client\<lparr>conversation_history := []\<rparr>,
          [\<lparr>p_messages = [\<lparr>role = ''user'', content = JStr ''hello''\<rparr>], p_temperature = 7 / 10,
             p_max_tokens = 512\<rparr>])"
    by (simp add: unavailable_gateway_def)
  from get_llm_response_rollback_or_append[OF h1 h2, of refusing_gateway "7 / 10" 512] c
  have e2: "get_llm_response refusing_gateway (7 / 10) 512 asking_client
       = (JStr ''Error: An unexpected problem occurred.'',
          asking_client\<lparr>conversation_history := []\<rparr>,
          [\<lparr>p_messages = [\<lparr>role = ''user'', content = JStr ''hello''\<rparr>], p_temperature = 7 / 10,
             p_max_tokens = 512\<rparr>])"
    by (simp add: refusing_gateway_def)
  from get_llm_response_rollback_or_append[OF h1 h2, of malformed_gateway "7 / 10" 512] c n
  have e3: "get_llm_response malformed_gateway (7 / 10) 512 asking_client
       = (JStr ''Error: Received an invalid response from the AI.'',
          asking_client\<lparr>conversation_history := []\<rparr>,
          [\<lparr>p_messages = [\<lparr>role = ''user'', content = JStr ''hello''\<rparr>], p_temperature = 7 / 10,
             p_max_tokens = 512\<rparr>])"
    by (simp add: malformed_gateway_def)
  from get_llm_response_rollback_or_append[OF h1 h2, of answering_gateway "7 / 10" 512] c w
  have e4: "get_llm_response answering_gateway (7 / 10) 512 asking_client
       = (JStr ''hi there'',
          asking_client\<lparr>conversation_history :=
            [\<lparr>role = ''user'', content = JStr ''hello''\<rparr>,
             \<lparr>role = ''assistant'', content = JStr ''hi there''\<rparr>]\<rparr>,
          [\<lparr>p_messages = [\<lparr>role = ''user'', content = JStr ''hello''\<rparr>], p_temperature = 7 / 10,
             p_max_tokens = 512\<rparr>])"
    by (simp add: answering_gateway_def)
  from c h2 e1 e2 e3 e4 show ?thesis by simp
qed

lemma empty_choices_is_malformed:
  "reply_content empty_choices_reply = None
   \<and> reply_content (JDict [(''choices'', JList [JDict []])]) = None
   \<and> reply_content (JDict [(''choices'', JList [JDict [(''message'', JDict [])]])]) = None
   \<and> reply_content (JDict [(''choices'', JStr ''text'')]) = None
   \<and> reply_content (JList []) = None"
  by (simp add: reply_content_def empty_choices_reply_def)


lemma get_llm_response_answered:
  "get_llm_response answering_gateway (7 / 10) 512 asking_client
     = (JStr ''hi there'',
        asking_client\<lparr>conversation_history :=
          [\<lparr>role = ''user'', content = JStr ''hello''\<rparr>,
           \<lparr>role = ''assistant'', content = JStr ''hi there''\<rparr>]\<rparr>,
        [\<lparr>p_messages = [\<lparr>role = ''user'', content = JStr ''hello''\<rparr>], p_temperature = 7 / 10,
           p_max_tokens = 512\<rparr>])"
  by (simp add: get_llm_response_def fetch_assistant_content_def answering_gateway_def
      raise_for_status_def canned_result_def asking_client_def add_user_message_def
      add_assistant_message_def LLMChatClient_init_def)

text \<open>
  A whole turn, as the chat loop runs it: the user message is added, then the response is
  asked for. When the exchange fails the history is what it was before the turn.
\<close>

lemma failed_turn_restores_history:
  assumes "fetch_assistant_content post (add_user_message c self)
             \<lparr>p_messages = conversation_history (add_user_message c self), p_temperature = t,
                p_max_tokens = m\<rparr> = Inl e"
  shows "fst (snd (get_llm_response post t m (add_user_message c self))) = self"
  using assms
  by (simp add: get_llm_response_def revert_last_user_message_def add_user_message_def Let_def)

text \<open>
  Claim C10. A call of \<open>get_llm_response\<close> on an empty history, or on a history whose last
  message is not a user message, returns the error text, posts nothing and leaves the
  client as it was.
\<close>

theorem get_llm_response_without_user_message:
  assumes "conversation_history self = [] \<or> role (last (conversation_history self)) \<noteq> ''user''"
  shows "get_llm_response post t m self
           = (JStr ''Error: Internal client error - no user message to respond to.'', self, [])"
  using assms by (auto simp: get_llm_response_def)

theorem get_llm_response_without_user_message_witness:
  "conversation_history (LLMChatClient_init ''http://localhost:8000/v1/chat/completions'' 120 (Some ''Be concise.''))
     = [\<lparr>role = ''system'', content = JStr ''Be concise.''\<rparr>]
   \<and> get_llm_response answering_gateway (7 / 10) 512
         (LLMChatClient_init ''http://localhost:8000/v1/chat/completions'' 120 (Some ''Be concise.''))
       = (JStr ''Error: Internal client error - no user message to respond to.'',
          LLMChatClient_init ''http://localhost:8000/v1/chat/completions'' 120 (Some ''Be concise.''), [])"
proof -
  have h: "conversation_history (LLMChatClient_init ''http://localhost:8000/v1/chat/completions'' 120 (Some ''Be concise.''))
     = [\<lparr>role = ''system'', content = JStr ''Be concise.''\<rparr>]"
    by (simp add: LLMChatClient_init_def)
  then have "conversation_history (LLMChatClient_init ''http://localhost:8000/v1/chat/completions'' 120 (Some ''Be concise.'')) = []
     \<or> role (last (conversation_history (LLMChatClient_init ''http://localhost:8000/v1/chat/completions'' 120 (Some ''Be concise.'')))) \<noteq> ''user''"
    by simp
  from get_llm_response_without_user_message[OF this, of answering_gateway "7 / 10" 512] h
  show ?thesis by simp
qed

lemma get_llm_response_empty_history:
  "get_llm_response answering_gateway (7 / 10) 512
       (LLMChatClient_init ''http://localhost:8000/v1/chat/completions'' 120 None)
     = (JStr ''Error: Internal client error - no user message to respond to.'',
        LLMChatClient_init ''http://localhost:8000/v1/chat/completions'' 120 None, [])"
  by (simp add: get_llm_response_def LLMChatClient_init_def)

section \<open>Unavailable engine or gate\<close>

text \<open>
  Claim C4. While the engine is absent or the lock is absent, every request is answered with
  503 by the dependency that misses its object: the handler is not entered, the
  application state is unchanged, and the trace is the one error record, so the lock is
  neither acquired nor waited for and the engine is not called.
\<close>

theorem unavailable_is_503_without_gate:
  assumes "\<not> engine_present st \<or> \<not> gate_present st"
  shows "chat_completions_route ev st request_data
           = (Raise (HTTPException 503
                 (if \<not> engine_present st
                  then ''LLM model is not loaded or unavailable. Check /health endpoint.''
                  else ''LLM lock is unavailable. Service may be initializing or LLM failed to load.'')),
              st,
              [Log ERROR
                 (if \<not> engine_present st
                  then ''LLM instance not found in application state. It might not have loaded correctly.''
                  else ''LLM lock not found in application state. LLM likely not loaded.'')])
         \<and> Acquire \<notin> set (snd (snd (chat_completions_route ev st request_data)))
         \<and> Invoke (args_of request_data) \<notin> set (snd (snd (chat_completions_route ev st request_data)))"
  using assms
  by (auto simp: chat_completions_route_def get_llm_instance_def get_llm_lock_def
      engine_present_def gate_present_def split: attr.splits)

theorem unavailable_is_503_without_gate_witness:
  "\<not> engine_present \<lparr>llm = IsNone, llm_lock = Obj \<lparr>locked = True\<rparr>\<rparr>
   \<and> chat_completions_route test_env \<lparr>llm = IsNone, llm_lock = Obj \<lparr>locked = True\<rparr>\<rparr> hello_request
       = (Raise (HTTPException 503 ''LLM model is not loaded or unavailable. Check /health endpoint.''),
          \<lparr>llm = IsNone, llm_lock = Obj \<lparr>locked = True\<rparr>\<rparr>,
          [Log ERROR ''LLM instance not found in application state. It might not have loaded correctly.''])"
proof -
  have h: "\<not> engine_present \<lparr>llm = IsNone, llm_lock = Obj \<lparr>locked = True\<rparr>\<rparr>"
    by (simp add: engine_present_def)
  then have "\<not> engine_present \<lparr>llm = IsNone, llm_lock = Obj \<lparr>locked = True\<rparr>\<rparr>
             \<or> \<not> gate_present \<lparr>llm = IsNone, llm_lock = Obj \<lparr>locked = True\<rparr>\<rparr>"
    by simp
  from unavailable_is_503_without_gate[OF this, of test_env hello_request] h
  show ?thesis by simp
qed

lemma gate_absent_is_503:
  "chat_completions_route test_env \<lparr>llm = Obj canned_engine, llm_lock = IsNone\<rparr> hello_request
     = (Raise (HTTPException 503
                ''LLM lock is unavailable. Service may be initializing or LLM failed to load.''),
        \<lparr>llm = Obj canned_engine, llm_lock = IsNone\<rparr>,
        [Log ERROR ''LLM lock not found in application state. LLM likely not loaded.''])"
  by (simp add: chat_completions_route_def get_llm_instance_def get_llm_lock_def)

section \<open>Empty message list\<close>

lemma handler_rejects_empty_messages:
  "messages request_data = [] \<Longrightarrow>
   create_chat_completion ev request_data llm_obj l
     = (Raise (HTTPException 400 ''Messages list cannot be empty.''), l,
        [Log INFO ''Received chat completion request'',
         Log WARNING ''Received empty messages list for chat completion.''])"
  by (simp add: create_chat_completion_def)

text \<open>
  The availability checks of the dependencies run before the handler's own check of the
  messages. With the engine and the lock present, a request whose message list is empty
  is answered with 400 whatever its other fields are and whether or not the lock is held;
  with the engine or the lock absent the answer is the 503 of the dependency.
\<close>

lemma empty_messages_route_answer:
  assumes "messages request_data = []"
  shows "chat_completions_route ev st request_data
           = (if engine_present st \<and> gate_present st
              then (Raise (HTTPException 400 ''Messages list cannot be empty.''), st,
                    [Log INFO ''Received chat completion request'',
                     Log WARNING ''Received empty messages list for chat completion.''])
              else if engine_present st
              then (Raise (HTTPException 503
                            ''LLM lock is unavailable. Service may be initializing or LLM failed to load.''),
                    st, [Log ERROR ''LLM lock not found in application state. LLM likely not loaded.''])
              else (Raise (HTTPException 503
                            ''LLM model is not loaded or unavailable. Check /health endpoint.''),
                    st,
                    [Log ERROR ''LLM instance not found in application state. It might not have loaded correctly.'']))"
  using assms
  by (cases "llm st"; cases "llm_lock st")
     (simp_all add: chat_completions_route_def get_llm_instance_def get_llm_lock_def
        create_chat_completion_def engine_present_def gate_present_def)

lemma empty_messages_with_held_lock_is_400:
  "chat_completions_route test_env \<lparr>llm = Obj canned_engine, llm_lock = Obj \<lparr>locked = True\<rparr>\<rparr>
       empty_request
     = (Raise (HTTPException 400 ''Messages list cannot be empty.''),
        \<lparr>llm = Obj canned_engine, llm_lock = Obj \<lparr>locked = True\<rparr>\<rparr>,
        [Log INFO ''Received chat completion request'',
         Log WARNING ''Received empty messages list for chat completion.''])"
  by (simp add: chat_completions_route_def get_llm_instance_def get_llm_lock_def
      create_chat_completion_def empty_request_def)

text \<open>
  Claim C5 at a request without messages that arrives while the engine is absent: the
  dependency answers 503 before the handler's check of the messages is reached, so the
  answer is not the 400 that the handler's first statement and the test of the empty
  message list call for.
\<close>

theorem empty_messages_engine_absent_is_503:
  "chat_completions_route test_env \<lparr>llm = IsNone, llm_lock = IsNone\<rparr> empty_request
     = (Raise (HTTPException 503 ''LLM model is not loaded or unavailable. Check /health endpoint.''),
        \<lparr>llm = IsNone, llm_lock = IsNone\<rparr>,
        [Log ERROR ''LLM instance not found in application state. It might not have loaded correctly.''])
   \<and> messages empty_request = []
   \<and> http_status (fst (chat_completions_route test_env \<lparr>llm = IsNone, llm_lock = IsNone\<rparr> empty_request))
       = Some 503
   \<and> fst (chat_completions_route test_env \<lparr>llm = IsNone, llm_lock = IsNone\<rparr> empty_request)
       \<noteq> Raise (HTTPException 400 ''Messages list cannot be empty.'')"
  by (simp add: chat_completions_route_def get_llm_instance_def empty_request_def)

section \<open>Health reporter\<close>

text \<open>
  Claim C7. With the engine present the health query answers status ok, model\_loaded true and
  the model name (the basename of the configured path, marked when the file is gone, or
  N/A without a path); with the engine absent it answers status warning, model\_loaded
  false, the diagnostic message and the configured path. In both cases it returns a
  mapping, and its trace holds log records only: it does not acquire or release the lock.
\<close>

theorem health_check_reports_engine_state:
  "fst (health_check_status ev st)
     = (if engine_present st
        then [(''status'', JStr ''ok''), (''model_loaded'', JBool True),
              (''model_name'',
               JStr (if MODEL_PATH ev = [] then ''N/A''
                     else if path_exists ev then basename (MODEL_PATH ev)
                     else basename (MODEL_PATH ev) @ '' (file not found)''))]
        else [(''status'', JStr ''warning''), (''model_loaded'', JBool False),
              (''message'', JStr ''LLM not loaded or failed to load. Check server logs.''),
              (''configured_model_path'', JStr (MODEL_PATH ev))])
   \<and> Acquire \<notin> set (snd (health_check_status ev st))
   \<and> Release \<notin> set (snd (health_check_status ev st))"
  by (simp add: health_check_status_def engine_present_def Let_def split: attr.splits)

theorem health_check_reports_engine_state_witness:
  "fst (health_check_status test_env \<lparr>llm = Obj canned_engine, llm_lock = Obj \<lparr>locked = True\<rparr>\<rparr>)
     = [(''status'', JStr ''ok''), (''model_loaded'', JBool True),
        (''model_name'', JStr ''mistral-7b-instruct-v0.1.Q4_K_M.gguf'')]
   \<and> fst (health_check_status test_env \<lparr>llm = IsNone, llm_lock = IsNone\<rparr>)
     = [(''status'', JStr ''warning''), (''model_loaded'', JBool False),
        (''message'', JStr ''LLM not loaded or failed to load. Check server logs.''),
        (''configured_model_path'', JStr ''models/mistral-7b-instruct-v0.1.Q4_K_M.gguf'')]"
  using health_check_reports_engine_state[of test_env
          "\<lparr>llm = Obj canned_engine, llm_lock = Obj \<lparr>locked = True\<rparr>\<rparr>"]
        health_check_reports_engine_state[of test_env "\<lparr>llm = IsNone, llm_lock = IsNone\<rparr>"]
  by (simp add: engine_present_def test_env_def basename_def)

section \<open>Lifecycle\<close>

text \<open>
  Claim C8, as the code has it. After startup the lock exists exactly when the engine is
  present: a missing artifact or a failed load stores None for both and startup still
  returns a state; a successful load stores the engine and a new, free lock. Shutdown
  removes the engine reference, does nothing when there is none (so that a second
  shutdown changes nothing), and leaves the lock attribute as it was.
\<close>

theorem lifecycle_gate_matches_engine:
  "(engine_present (fst (lifespan_startup ev load st))
      \<longleftrightarrow> gate_present (fst (lifespan_startup ev load st)))
   \<and> (\<not> path_exists ev \<or> (\<exists>x. load = LoadRaises x)
        \<longrightarrow> fst (lifespan_startup ev load st) = st\<lparr>llm := IsNone, llm_lock := IsNone\<rparr>)
   \<and> (\<forall>e. path_exists ev \<and> load = Loaded e
        \<longrightarrow> fst (lifespan_startup ev load st) = st\<lparr>llm := Obj e, llm_lock := Obj \<lparr>locked = False\<rparr>\<rparr>)
   \<and> \<not> engine_present (fst (lifespan_shutdown st))
   \<and> (\<not> engine_present st \<longrightarrow> fst (lifespan_shutdown st) = st)
   \<and> fst (lifespan_shutdown (fst (lifespan_shutdown st))) = fst (lifespan_shutdown st)
   \<and> llm_lock (fst (lifespan_shutdown st)) = llm_lock st"
  by (cases load; cases "llm st")
     (simp_all add: lifespan_startup_def lifespan_shutdown_def engine_present_def gate_present_def)

theorem lifecycle_gate_matches_engine_witness:
  "path_exists test_env
   \<and> fst (lifespan_startup test_env (Loaded canned_engine) \<lparr>llm = Missing, llm_lock = Missing\<rparr>)
       = \<lparr>llm = Obj canned_engine, llm_lock = Obj \<lparr>locked = False\<rparr>\<rparr>
   \<and> fst (lifespan_startup test_env (LoadRaises (RuntimeError ''Test LLM Load Error''))
            \<lparr>llm = Missing, llm_lock = Missing\<rparr>)
       = \<lparr>llm = IsNone, llm_lock = IsNone\<rparr>
   \<and> fst (lifespan_shutdown \<lparr>llm = IsNone, llm_lock = IsNone\<rparr>) = \<lparr>llm = IsNone, llm_lock = IsNone\<rparr>"
proof -
  have p: "path_exists test_env" by (simp add: test_env_def)
  from p
    lifecycle_gate_matches_engine[of test_env "Loaded canned_engine"
      "\<lparr>llm = Missing, llm_lock = Missing\<rparr>"]
    lifecycle_gate_matches_engine[of test_env "LoadRaises (RuntimeError ''Test LLM Load Error'')"
      "\<lparr>llm = Missing, llm_lock = Missing\<rparr>"]
    lifecycle_gate_matches_engine[of test_env "Loaded canned_engine" "\<lparr>llm = IsNone, llm_lock = IsNone\<rparr>"]
  show ?thesis by (simp add: engine_present_def)
qed

text \<open>
  After a successful startup followed by shutdown the engine attribute is gone and the
  lock is still there: the lock is not discarded, and it exists without an engine.
\<close>

theorem shutdown_keeps_gate_counterexample:
  "fst (lifespan_shutdown
         (fst (lifespan_startup test_env (Loaded canned_engine) \<lparr>llm = Missing, llm_lock = Missing\<rparr>)))
     = \<lparr>llm = Missing, llm_lock = Obj \<lparr>locked = False\<rparr>\<rparr>
   \<and> \<not> engine_present \<lparr>llm = Missing, llm_lock = Obj \<lparr>locked = False\<rparr>\<rparr>
   \<and> gate_present \<lparr>llm = Missing, llm_lock = Obj \<lparr>locked = False\<rparr>\<rparr>"
  by (simp add: lifespan_startup_def lifespan_shutdown_def test_env_def engine_present_def
      gate_present_def)

section \<open>The response of a successful generation\<close>

lemma first_choice_of_expected:
  assumes "map_of res ''choices'' = Some (JList (JDict ch # others))"
    and "map_of ch ''message'' = Some (JDict msg)"
    and "map_of msg ''role'' = None \<or> (\<exists>s. map_of msg ''role'' = Some (JStr s))"
    and "map_of msg ''content'' = None \<or> (\<exists>s. map_of msg ''content'' = Some (JStr s))"
    and "map_of ch ''finish_reason'' = None \<or> (\<exists>s. map_of ch ''finish_reason'' = Some (JStr s))"
  shows "first_choice_of (JDict res)
           = Inr \<lparr>index = 0,
                  message =
                    \<lparr>out_role = (case map_of msg ''role'' of Some (JStr s) \<Rightarrow> s | _ \<Rightarrow> ''assistant''),
                     out_content = (case map_of msg ''content'' of Some (JStr s) \<Rightarrow> s | _ \<Rightarrow> [])\<rparr>,
                  finish_reason =
                    (case map_of ch ''finish_reason'' of Some (JStr s) \<Rightarrow> s | _ \<Rightarrow> ''stop'')\<rparr>"
  using assms
  by (auto simp: first_choice_of_def new_ChatMessageOutput_def new_ChatCompletionChoice_def)

lemma guarded_trace_has_no_gate_events:
  "Acquire \<notin> set (snd (guarded ev outcome)) \<and> Release \<notin> set (snd (guarded ev outcome))"
  by (auto simp: guarded_def try_block_def split: engine_outcome.splits json.splits sum.splits
      exn.splits prod.splits)

lemma handler_entered:
  assumes "messages request_data \<noteq> []" and "\<not> locked l"
  shows "create_chat_completion ev request_data llm_obj l
           = (fst (guarded ev (llm_obj (args_of request_data))), l,
              [Log INFO ''Received chat completion request'',
               Log DEBUG ''Chat completion request details'', Acquire, Log INFO ''Acquired lock.'',
               Log INFO ''Offloading LLM inference to thread pool executor.'',
               Invoke (args_of request_data)]
              @ snd (guarded ev (llm_obj (args_of request_data))) @ [Release])"
  using assms
  by (simp add: create_chat_completion_def async_with_def acquire_def release_def
      split: prod.splits)

lemma handler_suspended:
  assumes "messages request_data \<noteq> []" and "locked l"
  shows "create_chat_completion ev request_data llm_obj l
           = (Suspended, l,
              [Log INFO ''Received chat completion request'',
               Log DEBUG ''Chat completion request details''])"
  using assms
  by (simp add: create_chat_completion_def async_with_def acquire_def split: prod.splits)

text \<open>
  Claim C6. When the engine returns a mapping whose first choice holds a message mapping, with
  role, content, finish reason and id texts and created an integer wherever they are
  given, the handler returns a response with that one choice at index 0: the role is the
  given one or assistant, the content the given one or empty, the finish reason the given
  one or stop.
\<close>

theorem successful_generation_fills_defaults:
  assumes "messages request_data \<noteq> []"
    and "\<not> locked l"
    and "llm_obj (args_of request_data) = Returns (JDict res)"
    and "map_of res ''choices'' = Some (JList (JDict ch # others))"
    and "map_of ch ''message'' = Some (JDict msg)"
    and "map_of msg ''role'' = None \<or> (\<exists>s. map_of msg ''role'' = Some (JStr s))"
    and "map_of msg ''content'' = None \<or> (\<exists>s. map_of msg ''content'' = Some (JStr s))"
    and "map_of ch ''finish_reason'' = None \<or> (\<exists>s. map_of ch ''finish_reason'' = Some (JStr s))"
    and "map_of res ''id'' = None \<or> (\<exists>s. map_of res ''id'' = Some (JStr s))"
    and "map_of res ''created'' = None \<or> (\<exists>i. map_of res ''created'' = Some (JInt i))"
  shows "fst (create_chat_completion ev request_data llm_obj l)
           = Response
               \<lparr>resp_id = (case map_of res ''id'' of Some (JStr s) \<Rightarrow> s
                           | _ \<Rightarrow> ''chatcmpl-'' @ str_of_int (now ev)),
                created = (case map_of res ''created'' of Some (JInt i) \<Rightarrow> i | _ \<Rightarrow> now ev),
                model = model_name_of ev,
                choices =
                  [\<lparr>index = 0,
                    message =
                      \<lparr>out_role = (case map_of msg ''role'' of Some (JStr s) \<Rightarrow> s | _ \<Rightarrow> ''assistant''),
                       out_content = (case map_of msg ''content'' of Some (JStr s) \<Rightarrow> s | _ \<Rightarrow> [])\<rparr>,
                    finish_reason =
                      (case map_of ch ''finish_reason'' of Some (JStr s) \<Rightarrow> s | _ \<Rightarrow> ''stop'')\<rparr>]\<rparr>"
proof -
  have c: "first_choice_of (JDict res)
           = Inr \<lparr>index = 0,
                  message =
                    \<lparr>out_role = (case map_of msg ''role'' of Some (JStr s) \<Rightarrow> s | _ \<Rightarrow> ''assistant''),
                     out_content = (case map_of msg ''content'' of Some (JStr s) \<Rightarrow> s | _ \<Rightarrow> [])\<rparr>,
                  finish_reason =
                    (case map_of ch ''finish_reason'' of Some (JStr s) \<Rightarrow> s | _ \<Rightarrow> ''stop'')\<rparr>"
    using assms(4-8) by (rule first_choice_of_expected)
  have r: "response_of ev (JDict res) choice
           = Inr \<lparr>resp_id = (case map_of res ''id'' of Some (JStr s) \<Rightarrow> s
                             | _ \<Rightarrow> ''chatcmpl-'' @ str_of_int (now ev)),
                  created = (case map_of res ''created'' of Some (JInt i) \<Rightarrow> i | _ \<Rightarrow> now ev),
                  model = model_name_of ev, choices = [choice]\<rparr>" for choice
    using assms(9,10) by (auto simp: response_of_def new_ChatCompletionResponse_def)
  have "fst (guarded ev (Returns (JDict res)))
          = Response
               \<lparr>resp_id = (case map_of res ''id'' of Some (JStr s) \<Rightarrow> s
                           | _ \<Rightarrow> ''chatcmpl-'' @ str_of_int (now ev)),
                created = (case map_of res ''created'' of Some (JInt i) \<Rightarrow> i | _ \<Rightarrow> now ev),
                model = model_name_of ev,
                choices =
                  [\<lparr>index = 0,
                    message =
                      \<lparr>out_role = (case map_of msg ''role'' of Some (JStr s) \<Rightarrow> s | _ \<Rightarrow> ''assistant''),
                       out_content = (case map_of msg ''content'' of Some (JStr s) \<Rightarrow> s | _ \<Rightarrow> [])\<rparr>,
                    finish_reason =
                      (case map_of ch ''finish_reason'' of Some (JStr s) \<Rightarrow> s | _ \<Rightarrow> ''stop'')\<rparr>]\<rparr>"
    by (simp add: guarded_def try_block_def c r)
  with assms(1-3) show ?thesis by (simp add: handler_entered)
qed

theorem successful_generation_fills_defaults_witness:
  "messages hello_request \<noteq> []
   \<and> canned_engine (args_of hello_request)
       = Returns (JDict [(''choices'',
                          JList [JDict [(''message'',
                                         JDict [(''role'', JStr ''assistant''),
                                                (''content'', JStr ''hi there'')])]])])
   \<and> fst (create_chat_completion test_env hello_request canned_engine \<lparr>locked = False\<rparr>)
       = Response
           \<lparr>resp_id = ''chatcmpl-1700000000'', created = 1700000000,
            model = ''mistral-7b-instruct-v0.1.Q4_K_M.gguf'',
            choices = [\<lparr>index = 0,
                        message = \<lparr>out_role = ''assistant'', out_content = ''hi there''\<rparr>,
                        finish_reason = ''stop''\<rparr>]\<rparr>"
proof -
  have h1: "messages hello_request \<noteq> []" by (simp add: hello_request_def)
  have h2: "\<not> locked \<lparr>locked = False\<rparr>" by simp
  have h3: "canned_engine (args_of hello_request)
       = Returns (JDict [(''choices'',
                          JList [JDict [(''message'',
                                         JDict [(''role'', JStr ''assistant''),
                                                (''content'', JStr ''hi there'')])]])])"
    by (simp add: canned_engine_def canned_result_def)
  have n: "str_of_int 1700000000 = ''1700000000''"
    by (simp add: str_of_int_def digit_def)
  have m: "model_name_of test_env = ''mistral-7b-instruct-v0.1.Q4_K_M.gguf''"
    by (simp add: model_name_of_def test_env_def basename_def)
  have t: "now test_env = 1700000000" by (simp add: test_env_def)
  from h1 h3 successful_generation_fills_defaults[where request_data = hello_request
      and l = "\<lparr>locked = False\<rparr>" and llm_obj = canned_engine and ev = test_env
      and res = "[(''choices'',
                   JList [JDict [(''message'',
                                  JDict [(''role'', JStr ''assistant''),
                                         (''content'', JStr ''hi there'')])]])]"
      and ch = "[(''message'', JDict [(''role'', JStr ''assistant''), (''content'', JStr ''hi there'')])]"
      and others = "[]"
      and msg = "[(''role'', JStr ''assistant''), (''content'', JStr ''hi there'')]"]
  have "fst (create_chat_completion test_env hello_request canned_engine \<lparr>locked = False\<rparr>)
       = Response
           \<lparr>resp_id = ''chatcmpl-1700000000'', created = 1700000000,
            model = ''mistral-7b-instruct-v0.1.Q4_K_M.gguf'',
            choices = [\<lparr>index = 0,
                        message = \<lparr>out_role = ''assistant'', out_content = ''hi there''\<rparr>,
                        finish_reason = ''stop''\<rparr>]\<rparr>"
    by (simp add: n m t)
  with h1 h3 show ?thesis by simp
qed

section \<open>Unexpected engine output and unexpected exceptions\<close>

lemma non_dict_output_is_500:
  assumes "messages request_data \<noteq> []" and "\<not> locked l"
    and "llm_obj (args_of request_data) = Returns v"
    and "\<forall>kvs. v \<noteq> JDict kvs"
  shows "fst (create_chat_completion ev request_data llm_obj l)
           = Raise (HTTPException 500 ''Invalid response structure from LLM.'')"
    and "Log ERROR ''Unexpected LLM response structure''
           \<in> set (snd (snd (create_chat_completion ev request_data llm_obj l)))"
  using assms by (cases v; simp add: handler_entered guarded_def try_block_def)+

lemma other_exception_is_logged_and_swallowed:
  assumes "messages request_data \<noteq> []" and "\<not> locked l"
    and "llm_obj (args_of request_data) = Raises e"
    and "\<forall>code detail. e \<noteq> HTTPException code detail"
  shows "fst (create_chat_completion ev request_data llm_obj l) = NoResponse"
    and "LogException ''An unexpected error occurred during chat completion''
           \<in> set (snd (snd (create_chat_completion ev request_data llm_obj l)))"
  using assms by (cases e; simp add: handler_entered guarded_def try_block_def)+

lemma missing_choices_is_logged_and_swallowed:
  assumes "messages request_data \<noteq> []" and "\<not> locked l"
    and "llm_obj (args_of request_data) = Returns (JDict res)"
    and "map_of res ''choices'' = None"
  shows "fst (create_chat_completion ev request_data llm_obj l) = NoResponse"
  using assms by (simp add: handler_entered guarded_def try_block_def first_choice_of_def)

text \<open>
  At an engine that raises, the handler logs the exception, releases the lock and returns
  None: it raises no HTTPException and returns no response object on this path.
\<close>

lemma handler_returns_none_on_exception:
  "create_chat_completion test_env hello_request failing_engine \<lparr>locked = False\<rparr>
     = (NoResponse, \<lparr>locked = False\<rparr>,
        [Log INFO ''Received chat completion request'',
         Log DEBUG ''Chat completion request details'', Acquire, Log INFO ''Acquired lock.'',
         Log INFO ''Offloading LLM inference to thread pool executor.'',
         Invoke (args_of hello_request),
         LogException ''An unexpected error occurred during chat completion'', Release])"
  by (simp add: create_chat_completion_def hello_request_def failing_engine_def async_with_def
      acquire_def release_def guarded_def try_block_def)
















lemma shapes_without_first_message:
  "\<not> expected_shape (JDict [])
   \<and> \<not> expected_shape (JDict [(''choices'', JList [])])
   \<and> \<not> expected_shape (JDict [(''choices'', JList [JDict [(''message'', JNull)]])])
   \<and> expected_shape canned_result"
  by (simp add: expected_shape_def canned_result_def)

section \<open>The gate is released on every exit\<close>

lemma guarded_not_suspended: "fst (guarded ev outcome) \<noteq> Suspended"
  by (auto simp: guarded_def split: prod.splits sum.splits exn.splits)

lemma handler_on_free_lock_not_suspended:
  "\<not> locked l \<Longrightarrow> fst (create_chat_completion ev request_data llm_obj l) \<noteq> Suspended"
  by (cases "messages request_data = []")
     (simp_all add: handler_rejects_empty_messages handler_entered guarded_not_suspended)

text \<open>
  Claim C2. A call of the handler that acquired the lock acquired it once and released it once,
  as its last action, whatever the engine did (a response, a 500 for a malformed output, a
  logged exception): the lock is free afterwards, and a following request on that lock is
  not suspended.
\<close>

theorem gate_released_exactly_once:
  assumes "create_chat_completion ev request_data llm_obj l = (r, l', t)"
    and "Acquire \<in> set t"
  shows "count_list t Acquire = 1 \<and> count_list t Release = 1 \<and> last t = Release
         \<and> \<not> locked l'
         \<and> fst (create_chat_completion ev2 request_data2 llm_obj2 l') \<noteq> Suspended"
proof -
  have m: "messages request_data \<noteq> []"
    using assms by (auto simp: handler_rejects_empty_messages)
  have f: "\<not> locked l"
    using assms m by (auto simp: handler_suspended)
  from handler_entered[OF m f, of ev llm_obj] assms(1)
  have l': "l' = l"
    and t: "t = [Log INFO ''Received chat completion request'',
                 Log DEBUG ''Chat completion request details'', Acquire, Log INFO ''Acquired lock.'',
                 Log INFO ''Offloading LLM inference to thread pool executor.'',
                 Invoke (args_of request_data)]
                @ snd (guarded ev (llm_obj (args_of request_data))) @ [Release]"
    by simp_all
  have a: "count_list (snd (guarded ev (llm_obj (args_of request_data)))) Acquire = 0"
    and b: "count_list (snd (guarded ev (llm_obj (args_of request_data)))) Release = 0"
    using guarded_trace_has_no_gate_events[of ev "llm_obj (args_of request_data)"]
    by (simp_all add: count_list_0_iff)
  have c1: "count_list t Acquire = 1" by (simp add: t a)
  have c2: "count_list t Release = 1" by (simp add: t b)
  have c3: "last t = Release" by (simp add: t)
  from f l' have c4: "\<not> locked l'" by simp
  from c1 c2 c3 c4 handler_on_free_lock_not_suspended[OF c4] show ?thesis by simp
qed

theorem gate_released_exactly_once_witness:
  "Acquire \<in> set (snd (snd (create_chat_completion test_env hello_request failing_engine \<lparr>locked = False\<rparr>)))
   \<and> fst (create_chat_completion test_env hello_request failing_engine \<lparr>locked = False\<rparr>) = NoResponse
   \<and> count_list (snd (snd (create_chat_completion test_env hello_request failing_engine \<lparr>locked = False\<rparr>)))
        Release = 1
   \<and> \<not> locked (fst (snd (create_chat_completion test_env hello_request failing_engine \<lparr>locked = False\<rparr>)))
   \<and> fst (create_chat_completion test_env hello_request canned_engine
            (fst (snd (create_chat_completion test_env hello_request failing_engine \<lparr>locked = False\<rparr>))))
       \<noteq> Suspended"
proof -
  have e: "create_chat_completion test_env hello_request failing_engine \<lparr>locked = False\<rparr>
     = (NoResponse, \<lparr>locked = False\<rparr>,
        [Log INFO ''Received chat completion request'',
         Log DEBUG ''Chat completion request details'', Acquire, Log INFO ''Acquired lock.'',
         Log INFO ''Offloading LLM inference to thread pool executor.'',
         Invoke (args_of hello_request),
         LogException ''An unexpected error occurred during chat completion'', Release])"
    by (simp add: create_chat_completion_def hello_request_def failing_engine_def async_with_def
        acquire_def release_def guarded_def try_block_def)
  have a: "Acquire \<in> set [Log INFO ''Received chat completion request'',
         Log DEBUG ''Chat completion request details'', Acquire, Log INFO ''Acquired lock.'',
         Log INFO ''Offloading LLM inference to thread pool executor.'',
         Invoke (args_of hello_request),
         LogException ''An unexpected error occurred during chat completion'', Release]"
    by simp
  from gate_released_exactly_once[OF e a, of test_env hello_request canned_engine] e a
  show ?thesis by simp
qed

lemma request_after_failure_is_served:
  "fst (chat_completions_route test_env
         (fst (snd (chat_completions_route test_env
                      \<lparr>llm = Obj failing_engine, llm_lock = Obj \<lparr>locked = False\<rparr>\<rparr> hello_request))
            \<lparr>llm := Obj canned_engine\<rparr>)
         hello_request)
     = Response
         \<lparr>resp_id = ''chatcmpl-1700000000'', created = 1700000000,
          model = ''mistral-7b-instruct-v0.1.Q4_K_M.gguf'',
          choices = [\<lparr>index = 0,
                      message = \<lparr>out_role = ''assistant'', out_content = ''hi there''\<rparr>,
                      finish_reason = ''stop''\<rparr>]\<rparr>"
  by (simp add: chat_completions_route_def get_llm_instance_def get_llm_lock_def
      create_chat_completion_def hello_request_def failing_engine_def canned_engine_def
      canned_result_def test_env_def async_with_def acquire_def release_def guarded_def
      try_block_def first_choice_of_def response_of_def new_ChatMessageOutput_def
      new_ChatCompletionChoice_def new_ChatCompletionResponse_def model_name_of_def
      basename_def str_of_int_def digit_def args_of_def)

end
